theory Spec2Isabelle
  imports Main
begin

section \<open>Drug of the Day: time, day rotation and the quiz state\<close>

text \<open>
  The development follows the single component file of the repository (the page component
  \<open>DrugOfTheDay\<close> and its helpers \<open>setsEqual\<close> and \<open>next9amTs\<close>).

  Time. A JavaScript timestamp is a number of milliseconds since the Unix epoch; it is an
  \<open>int\<close> here (timestamps before 1970 are negative). The runtime's \<open>Date\<close> object is not part
  of the repository. It is modelled after the language standard, over the two offsets that
  the host's time zone supplies: the offset in force at an instant, which \<open>Date\<close> adds to read
  the local fields of a timestamp, and the offset that belongs to a local time, which \<open>Date\<close>
  subtracts to build a timestamp from local fields. Both are in milliseconds east of UTC and
  may change with daylight-saving time. A calendar date (the triple read by \<open>getFullYear\<close>,
  \<open>getMonth\<close>, \<open>getDate\<close>) is represented by its day number, the number of days since
  1970-01-01, so that \<open>new Date(d.getFullYear(), d.getMonth(), d.getDate(), 9, 0, 0, 0)\<close> is the
  local 09:00 of the local day of \<open>d\<close>.
\<close>

subsection \<open>The runtime's Date and the host's time zone\<close>

definition MS_PER_HOUR :: int where
  "MS_PER_HOUR = 3600 * 1000"

definition MS_PER_DAY :: int where
  "MS_PER_DAY = 24 * 3600 * 1000"

text \<open>
  A time zone: \<open>offsetAt tz t\<close> is the offset in force at the instant \<open>t\<close> (the standard's
  \<open>LocalTZA(t, true)\<close>), \<open>offsetOfLocal tz l\<close> the offset used for the local time \<open>l\<close> (the
  standard's \<open>LocalTZA(l, false)\<close>; for a local time that a clock change skips or repeats, it
  is the offset before the change).
\<close>

record zone =
  offsetAt :: "int \<Rightarrow> int"
  offsetOfLocal :: "int \<Rightarrow> int"

text \<open>The standard's \<open>LocalTime(t)\<close> and \<open>UTC(l)\<close>.\<close>

definition localTime :: "zone \<Rightarrow> int \<Rightarrow> int" where
  "localTime tz t = t + offsetAt tz t"

definition utcOf :: "zone \<Rightarrow> int \<Rightarrow> int" where
  "utcOf tz l = l - offsetOfLocal tz l"

text \<open>The local calendar day of a timestamp (what \<open>getFullYear\<close>, \<open>getMonth\<close> and \<open>getDate\<close>
  determine together), and the local time of day in milliseconds.\<close>

definition localDay :: "zone \<Rightarrow> int \<Rightarrow> int" where
  "localDay tz t = localTime tz t div MS_PER_DAY"

definition timeOfDay :: "zone \<Rightarrow> int \<Rightarrow> int" where
  "timeOfDay tz t = localTime tz t mod MS_PER_DAY"

text \<open>The local time value of the hour \<open>h\<close> of the calendar day \<open>day\<close>, and
  \<open>new Date(y, m, d, h, 0, 0, 0).getTime()\<close>, the timestamp built from it.\<close>

definition localAt :: "int \<Rightarrow> int \<Rightarrow> int" where
  "localAt day h = day * MS_PER_DAY + h * MS_PER_HOUR"

definition dateAt :: "zone \<Rightarrow> int \<Rightarrow> int \<Rightarrow> int" where
  "dateAt tz day h = utcOf tz (localAt day h)"

text \<open>\<open>candidate.setDate(candidate.getDate() + 1)\<close>: the timestamp built from the local fields
  of \<open>t\<close> with the day advanced by one, that is the same wall-clock time on the next calendar
  day, at the offset of that day.\<close>

definition setDatePlus1 :: "zone \<Rightarrow> int \<Rightarrow> int" where
  "setDatePlus1 tz t = utcOf tz ((localDay tz t + 1) * MS_PER_DAY + timeOfDay tz t)"

text \<open>The day number of a civil date of the proleptic Gregorian calendar (months \<open>1..12\<close>), used
  to read the ISO dates of the source and of the scenarios.\<close>

definition days_from_civil :: "int \<Rightarrow> int \<Rightarrow> int \<Rightarrow> int" where
  "days_from_civil y m d =
     (let y' = (if m \<le> 2 then y - 1 else y);
          era = y' div 400;
          yoe = y' - era * 400;
          doy = (153 * (if m > 2 then m - 3 else m + 9) + 2) div 5 + d - 1;
          doe = yoe * 365 + yoe div 4 - yoe div 100 + doy
      in era * 146097 + doe - 719468)"

text \<open>A local date and time \<open>YYYY-MM-DDThh:mm\<close> as a local time value, and the timestamp that
  \<open>new Date(string)\<close> builds from it (an ISO string without offset is read as local time).\<close>

definition localValue :: "int \<Rightarrow> int \<Rightarrow> int \<Rightarrow> int \<Rightarrow> int \<Rightarrow> int" where
  "localValue y m d hh mm = days_from_civil y m d * MS_PER_DAY + hh * MS_PER_HOUR + mm * 60000"

definition localDateTime :: "zone \<Rightarrow> int \<Rightarrow> int \<Rightarrow> int \<Rightarrow> int \<Rightarrow> int \<Rightarrow> int" where
  "localDateTime tz y m d hh mm = utcOf tz (localValue y m d hh mm)"

text \<open>
  Three zones. A zone with one offset throughout; UTC is the one with offset 0. London
  around the end of summer time 2025: UTC+1 before the instant 2025-10-26T01:00Z, UTC from
  then on. Sydney around the start of summer time 2025: UTC+10 before the instant
  2025-10-04T16:00Z, UTC+11 from then on.
\<close>

definition fixedZone :: "int \<Rightarrow> zone" where
  "fixedZone off = \<lparr>offsetAt = (\<lambda>t. off), offsetOfLocal = (\<lambda>l. off)\<rparr>"

definition utcZone :: zone where
  "utcZone = fixedZone 0"

definition london2025 :: zone where
  "london2025 =
     \<lparr>offsetAt = (\<lambda>t. if t < 1761440400000 then 3600000 else 0),
      offsetOfLocal = (\<lambda>l. if l < 1761440400000 + 3600000 then 3600000 else 0)\<rparr>"


text \<open>
  A local time is regular in a zone when the clock shows it at exactly one instant: the
  timestamp built from it reads it back, the local clock is below it at every earlier instant
  and at or above it from that instant on. Every local time is regular in a zone with one
  offset; in a zone with daylight-saving time, 09:00 of a day is regular unless a clock change
  makes the clock skip, repeat or cross 09:00 of that day.
\<close>

definition regular :: "zone \<Rightarrow> int \<Rightarrow> bool" where
  "regular tz l =
     (localTime tz (utcOf tz l) = l \<and> (\<forall>t. utcOf tz l \<le> t \<longleftrightarrow> l \<le> localTime tz t))"

text \<open>The zone has the offset \<open>off\<close> for every local time from \<open>lo\<close> to \<open>hi\<close>.\<close>

definition steady :: "zone \<Rightarrow> int \<Rightarrow> int \<Rightarrow> int \<Rightarrow> bool" where
  "steady tz off lo hi =
     ((\<forall>l. lo \<le> l \<and> l \<le> hi \<longrightarrow> offsetOfLocal tz l = off)
      \<and> (\<forall>t. lo \<le> t + off \<and> t + off \<le> hi \<longrightarrow> offsetAt tz t = off))"

subsection \<open>Unlock gate: the next 09:00 local time\<close>

text \<open>
  \<^verbatim>\<open>
  const next9amTs = (base: number) => {
    const d = new Date(base);
    const candidate = new Date(d.getFullYear(), d.getMonth(), d.getDate(), 9, 0, 0, 0);
    if (base >= candidate.getTime()) candidate.setDate(candidate.getDate() + 1);
    return candidate.getTime();
  };
  \<close>
\<close>

definition next9amTs :: "zone \<Rightarrow> int \<Rightarrow> int" where
  "next9amTs tz base =
     (let candidate = dateAt tz (localDay tz base) 9
      in if base \<ge> candidate then setDatePlus1 tz candidate else candidate)"

subsection \<open>Day selector\<close>

text \<open>JavaScript's \<open>%\<close> on integers, for a divisor other than 0: the remainder of the division
  that truncates towards zero; it has the sign of the dividend.\<close>

definition js_rem :: "int \<Rightarrow> int \<Rightarrow> int" where
  "js_rem a b = sgn a * (\<bar>a\<bar> mod \<bar>b\<bar>)"

text \<open>\<open>list[i]\<close>: reading an array out of range yields \<open>undefined\<close>, which is \<open>None\<close> here.\<close>

definition js_index :: "'a list \<Rightarrow> int \<Rightarrow> 'a option" where
  "js_index xs i = (if 0 \<le> i \<and> i < int (length xs) then Some (xs ! nat i) else None)"

text \<open>\<open>START_DATE_ISO = "2025-09-01"\<close>, as year, month and day.\<close>

definition START_DATE_ISO :: "int \<times> int \<times> int" where
  "START_DATE_ISO = (2025, 9, 1)"

text \<open>\<open>new Date(START_DATE_ISO + "T09:00:00").getTime()\<close>.\<close>

definition start9 :: "zone \<Rightarrow> int" where
  "start9 tz = (case START_DATE_ISO of (y, m, d) \<Rightarrow> localDateTime tz y m d 9 0)"

text \<open>\<open>today9\<close> and \<open>boundaryNow\<close> of \<open>pickDrugForToday\<close>: today's 09:00, or yesterday's when
  \<open>now\<close> is before it.\<close>

definition today9 :: "zone \<Rightarrow> int \<Rightarrow> int" where
  "today9 tz now = dateAt tz (localDay tz now) 9"

definition boundaryNow :: "zone \<Rightarrow> int \<Rightarrow> int" where
  "boundaryNow tz now =
     (if now \<ge> today9 tz now then today9 tz now else today9 tz now - 24 * 3600 * 1000)"

text \<open>\<open>days = Math.floor((boundaryNow.getTime() - start9.getTime()) / (24 * 3600 * 1000))\<close>.\<close>

definition days :: "zone \<Rightarrow> int \<Rightarrow> int" where
  "days tz now = (boundaryNow tz now - start9 tz) div (24 * 3600 * 1000)"

text \<open>\<open>idx = len > 0 ? ((days % len) + len) % len : 0\<close>, the "safe modulo" of the source.\<close>

definition safeIdx :: "int \<Rightarrow> int \<Rightarrow> int" where
  "safeIdx dys len = (if len > 0 then js_rem (js_rem dys len + len) len else 0)"

text \<open>
  \<open>pickDrugForToday\<close>. The content array \<open>drugs\<close> is imported from a JSON file that is not
  part of the sources; it is the parameter \<open>list\<close>. The clock read \<open>new Date()\<close> is the
  parameter \<open>now\<close>. The result is \<open>None\<close> when the source returns \<open>undefined\<close>.
\<close>

definition pickDrugForToday :: "zone \<Rightarrow> int \<Rightarrow> 'a list \<Rightarrow> 'a option" where
  "pickDrugForToday tz now list =
     (let len = int (length list);
          idx = safeIdx (days tz now) len
      in if len > 0 then js_index list idx else js_index list 0)"

subsection \<open>Content: drugs, anchors and options\<close>

text \<open>
  The types of the source. Of an anchor, the fields that only the markup reads (\<open>prompt\<close>,
  \<open>explanation\<close>, \<open>rationales\<close>, \<open>refs\<close>) are left out, and so are \<open>intro\<close> and \<open>tags\<close> of a drug.
\<close>

datatype AnchorId = Class | Indications | Moa | Adrs | Interactions

datatype AnchorType = Single | Multi

record Opt =
  opt_id :: string
  opt_label :: string

record Anchor =
  anchor_id :: AnchorId
  anchor_title :: string
  anchor_type :: AnchorType
  options :: "Opt list"
  correct :: "string list"

record Drug =
  drug_name :: string
  anchors :: "Anchor list"

text \<open>The example content of the source, \<open>RAMIPRIL\<close> (labels in ASCII).\<close>

definition RAMIPRIL :: Drug where
  "RAMIPRIL = \<lparr>drug_name = ''ramipril'', anchors = [
     \<lparr>anchor_id = Class, anchor_title = ''Drug class'', anchor_type = Single,
      options = [\<lparr>opt_id = ''ace'', opt_label = ''ACE inhibitor''\<rparr>,
                 \<lparr>opt_id = ''arb'', opt_label = ''Angiotensin II receptor blocker (ARB)''\<rparr>,
                 \<lparr>opt_id = ''ccb'', opt_label = ''Dihydropyridine calcium-channel blocker''\<rparr>,
                 \<lparr>opt_id = ''bb'', opt_label = ''Beta-blocker''\<rparr>],
      correct = [''ace'']\<rparr>,
     \<lparr>anchor_id = Indications, anchor_title = ''Common indications'', anchor_type = Multi,
      options = [\<lparr>opt_id = ''htn'', opt_label = ''Hypertension''\<rparr>,
                 \<lparr>opt_id = ''hfrEF'', opt_label = ''Heart failure with reduced EF''\<rparr>,
                 \<lparr>opt_id = ''postmi'', opt_label = ''Post-MI / secondary prevention''\<rparr>,
                 \<lparr>opt_id = ''ckd'', opt_label = ''CKD with albuminuria''\<rparr>,
                 \<lparr>opt_id = ''angina'', opt_label = ''Stable angina''\<rparr>,
                 \<lparr>opt_id = ''migraine'', opt_label = ''Migraine prophylaxis''\<rparr>],
      correct = [''htn'', ''hfrEF'', ''postmi'', ''ckd'']\<rparr>,
     \<lparr>anchor_id = Moa, anchor_title = ''Mechanism of action'', anchor_type = Single,
      options = [\<lparr>opt_id = ''moa_true'', opt_label = ''Inhibits ACE''\<rparr>,
                 \<lparr>opt_id = ''moa_arb'', opt_label = ''Blocks AT1 receptor (ARB)''\<rparr>,
                 \<lparr>opt_id = ''moa_ccb'', opt_label = ''Blocks L-type Ca channels''\<rparr>,
                 \<lparr>opt_id = ''moa_renin'', opt_label = ''Direct renin inhibitor''\<rparr>],
      correct = [''moa_true'']\<rparr>,
     \<lparr>anchor_id = Adrs, anchor_title = ''Important adverse reactions'', anchor_type = Multi,
      options = [\<lparr>opt_id = ''cough'', opt_label = ''Dry cough''\<rparr>,
                 \<lparr>opt_id = ''angio'', opt_label = ''Angioedema''\<rparr>,
                 \<lparr>opt_id = ''k'', opt_label = ''Hyperkalaemia''\<rparr>,
                 \<lparr>opt_id = ''hypo'', opt_label = ''Symptomatic hypotension/dizziness''\<rparr>,
                 \<lparr>opt_id = ''renal'', opt_label = ''Rise in creatinine/AKI risk''\<rparr>,
                 \<lparr>opt_id = ''gingiva'', opt_label = ''Gingival hyperplasia''\<rparr>,
                 \<lparr>opt_id = ''brady'', opt_label = ''Bradycardia''\<rparr>],
      correct = [''cough'', ''angio'', ''k'', ''hypo'', ''renal'']\<rparr>,
     \<lparr>anchor_id = Interactions, anchor_title = ''Important drug-drug interactions'',
      anchor_type = Multi,
      options = [\<lparr>opt_id = ''kplus'', opt_label = ''K supplements / K-sparing diuretics''\<rparr>,
                 \<lparr>opt_id = ''nsaids'', opt_label = ''NSAIDs (esp. chronic)''\<rparr>,
                 \<lparr>opt_id = ''lithium'', opt_label = ''Lithium''\<rparr>,
                 \<lparr>opt_id = ''dualraas'', opt_label = ''Dual RAAS blockade''\<rparr>,
                 \<lparr>opt_id = ''gfj'', opt_label = ''Grapefruit juice''\<rparr>,
                 \<lparr>opt_id = ''ppi'', opt_label = ''PPIs''\<rparr>],
      correct = [''kplus'', ''nsaids'', ''lithium'', ''dualraas'']\<rparr>]\<rparr>"

subsection \<open>JavaScript sets of strings and the scorer\<close>

text \<open>
  A JavaScript \<open>Set\<close> keeps its elements once each, in insertion order: a list without
  duplicates. \<open>new Set(array)\<close> adds the elements of the array from left to right.
\<close>

definition set_has :: "'a list \<Rightarrow> 'a \<Rightarrow> bool" where
  "set_has s v = (v \<in> set s)"

definition set_add :: "'a list \<Rightarrow> 'a \<Rightarrow> 'a list" where
  "set_add s v = (if set_has s v then s else s @ [v])"

definition set_delete :: "'a list \<Rightarrow> 'a \<Rightarrow> 'a list" where
  "set_delete s v = filter (\<lambda>x. x \<noteq> v) s"

definition new_Set :: "'a list \<Rightarrow> 'a list" where
  "new_Set xs = foldl set_add [] xs"

text \<open>
  \<^verbatim>\<open>
  function setsEqual(a: Set<string>, b: Set<string>) {
    if (a.size !== b.size) return false;
    for (const v of a) if (!b.has(v)) return false;
    return true;
  }
  \<close>
\<close>

definition setsEqual :: "'a list \<Rightarrow> 'a list \<Rightarrow> bool" where
  "setsEqual a b = (if length a \<noteq> length b then False else list_all (set_has b) a)"

text \<open>One entry of \<open>results.perAnchor\<close>.\<close>

record PerAnchor =
  r_anchor :: Anchor
  r_correct :: bool
  r_missed :: "Opt list"
  r_wrong :: "Opt list"
  r_selected :: "Opt list"
  r_correctOpts :: "Opt list"

definition scoreAnchor :: "(AnchorId \<Rightarrow> string list) \<Rightarrow> Anchor \<Rightarrow> PerAnchor" where
  "scoreAnchor ans a =
     (let sel = new_Set (ans (anchor_id a));
          cor = new_Set (correct a)
      in \<lparr>r_anchor = a,
          r_correct = setsEqual sel cor,
          r_missed = filter (\<lambda>p. set_has cor (opt_id p) \<and> \<not> set_has sel (opt_id p)) (options a),
          r_wrong = filter (\<lambda>p. set_has sel (opt_id p) \<and> \<not> set_has cor (opt_id p)) (options a),
          r_selected = filter (\<lambda>p. set_has sel (opt_id p)) (options a),
          r_correctOpts = filter (\<lambda>p. set_has cor (opt_id p)) (options a)\<rparr>)"

subsection \<open>Component state and persisted store\<close>

text \<open>
  The three keys of \<open>window.localStorage\<close>. A value is kept as the number or the date it was
  written from (\<open>String\<close> of an integer read back by \<open>Number\<close> is that integer); \<open>None\<close> is an
  absent key. The date string \<open>toISOString().slice(0, 10)\<close> is the UTC calendar date; it is
  represented by its day number (years 0000 to 9999, where the first ten characters of the
  ISO string are the date).
\<close>

record localStorage =
  dotd_next_at :: "int option"
  dotd_streak :: "int option"
  dotd_last :: "int option"

text \<open>\<open>Number(window.localStorage.getItem("dotd_streak") || "0")\<close>.\<close>

definition storedStreak :: "localStorage \<Rightarrow> int" where
  "storedStreak ls = (case dotd_streak ls of None \<Rightarrow> 0 | Some v \<Rightarrow> v)"

text \<open>The \<open>useState\<close> cells of the component, and the store.\<close>

record state =
  idx :: nat
  answers :: "AnchorId \<Rightarrow> string list"
  showResults :: bool
  showCompleted :: bool
  timerOn :: bool
  soundOn :: bool
  secondsLeftBy :: "AnchorId \<rightharpoonup> int"
  nextAt :: "int option"
  streak :: int
  storage :: localStorage

text \<open>\<open>initialTimes\<close>: 35 seconds for every anchor of the drug.\<close>

definition initialTimes :: "Drug \<Rightarrow> (AnchorId \<rightharpoonup> int)" where
  "initialTimes drug = foldl (\<lambda>d a. d(anchor_id a \<mapsto> 35)) Map.empty (anchors drug)"

text \<open>The state after the first render and its mount effect, which reads the streak from the
  store.\<close>

definition initState :: "Drug \<Rightarrow> localStorage \<Rightarrow> state" where
  "initState drug ls =
     \<lparr>idx = 0, answers = (\<lambda>_. []), showResults = False, showCompleted = False,
      timerOn = True, soundOn = True, secondsLeftBy = initialTimes drug,
      nextAt = dotd_next_at ls,
      streak = storedStreak ls,
      storage = ls\<rparr>"

text \<open>
  Errors. \<open>TypeError\<close> is what the runtime raises on reading a property of \<open>undefined\<close>.
  \<open>EmptyContentError\<close> is the error named by the specification; no statement of the source
  raises it.
\<close>

datatype error = EmptyContentError | TypeError

text \<open>\<open>curr = drug.anchors[idx]\<close>, read by every render.\<close>

definition curr :: "Drug \<Rightarrow> state \<Rightarrow> Anchor option" where
  "curr drug st = js_index (anchors drug) (int (idx st))"

text \<open>
  Mounting the component: \<open>useState(() => pickDrugForToday())\<close>, then
  \<open>total = drug.anchors.length\<close> and \<open>secondsLeftBy[curr.id]\<close>, which raise a \<open>TypeError\<close> when
  \<open>drug\<close>, respectively \<open>curr\<close>, is \<open>undefined\<close>.
\<close>

definition mount :: "zone \<Rightarrow> int \<Rightarrow> Drug list \<Rightarrow> localStorage \<Rightarrow> error + (Drug \<times> state)" where
  "mount tz now list ls =
     (case pickDrugForToday tz now list of
        None \<Rightarrow> Inl TypeError
      | Some drug \<Rightarrow>
          (case curr drug (initState drug ls) of
             None \<Rightarrow> Inl TypeError
           | Some c \<Rightarrow> Inr (drug, initState drug ls)))"

subsection \<open>Timer\<close>

text \<open>\<open>secondsLeft = secondsLeftBy[curr.id] ?? 35\<close>.\<close>

definition secondsLeft :: "Anchor \<Rightarrow> state \<Rightarrow> int" where
  "secondsLeft c st = (case secondsLeftBy st (anchor_id c) of None \<Rightarrow> 35 | Some v \<Rightarrow> v)"

text \<open>
  The timer effect, when its one-second timeout fires:
  \<^verbatim>\<open>
  if (!timerOn || showResults || showCompleted) return;
  if (secondsLeft <= 0) return;
  setSecondsLeftBy((prev) => ({ ...prev, [curr.id]: Math.max(0, (prev[curr.id] ?? 35) - 1) }));
  \<close>
\<close>

definition tick :: "Anchor \<Rightarrow> state \<Rightarrow> state" where
  "tick c st =
     (if \<not> timerOn st \<or> showResults st \<or> showCompleted st then st
      else if secondsLeft c st \<le> 0 then st
      else st\<lparr>secondsLeftBy := (secondsLeftBy st)(anchor_id c \<mapsto>
             max 0 ((case secondsLeftBy st (anchor_id c) of None \<Rightarrow> 35 | Some v \<Rightarrow> v) - 1))\<rparr>)"

subsection \<open>Selection and navigation handlers\<close>

definition toggle :: "Anchor \<Rightarrow> string \<Rightarrow> state \<Rightarrow> state" where
  "toggle c i st =
     (let prev = new_Set (answers st (anchor_id c))
      in if anchor_type c = Single then st\<lparr>answers := (answers st)(anchor_id c := [i])\<rparr>
         else st\<lparr>answers := (answers st)(anchor_id c :=
                (if set_has prev i then set_delete prev i else set_add prev i))\<rparr>)"

definition clearSelection :: "Anchor \<Rightarrow> state \<Rightarrow> state" where
  "clearSelection c st = st\<lparr>answers := (answers st)(anchor_id c := [])\<rparr>"

text \<open>\<open>goNext\<close>; the parameter is \<open>total = drug.anchors.length\<close>.\<close>

definition goNext :: "nat \<Rightarrow> state \<Rightarrow> state" where
  "goNext n st = (if idx st + 1 < n then st\<lparr>idx := idx st + 1\<rparr> else st\<lparr>showResults := True\<rparr>)"

definition goBack :: "state \<Rightarrow> state" where
  "goBack st = (if idx st > 0 then st\<lparr>idx := idx st - 1\<rparr> else st)"

text \<open>The "Try again" button of the Results screen.\<close>

definition tryAgain :: "state \<Rightarrow> state" where
  "tryAgain st = st\<lparr>showResults := False, idx := 0, answers := (\<lambda>_. [])\<rparr>"

subsection \<open>Results and streak\<close>

definition results :: "Drug \<Rightarrow> state \<Rightarrow> PerAnchor list option" where
  "results drug st =
     (if \<not> showResults st then None else Some (map (scoreAnchor (answers st)) (anchors drug)))"

text \<open>\<open>new Date(t).toISOString().slice(0, 10)\<close>, as a day number.\<close>

definition utcDate :: "int \<Rightarrow> int" where
  "utcDate t = t div MS_PER_DAY"

text \<open>
  The streak effect (the \<open>recordCompletion\<close> of the specification), run at the time \<open>now\<close>:
  \<^verbatim>\<open>
  const today = new Date().toISOString().slice(0, 10);
  const lastDone = window.localStorage.getItem("dotd_last");
  let streakVal = Number(window.localStorage.getItem("dotd_streak") || "0");
  if (lastDone !== today) {
    const yesterday = new Date(Date.now() - 24 * 3600 * 1000).toISOString().slice(0, 10);
    streakVal = lastDone === yesterday ? streakVal + 1 : 1;
    window.localStorage.setItem("dotd_streak", String(streakVal));
    window.localStorage.setItem("dotd_last", today);
    setStreak(streakVal);
  } else {
    setStreak(streakVal);
  }
  \<close>
\<close>

definition recordCompletion :: "int \<Rightarrow> state \<Rightarrow> state" where
  "recordCompletion now st =
     (let today = utcDate now;
          lastDone = dotd_last (storage st);
          streakVal = storedStreak (storage st)
      in if lastDone \<noteq> Some today then
           (let yesterday = utcDate (now - 24 * 3600 * 1000);
                streakVal' = (if lastDone = Some yesterday then streakVal + 1 else 1)
            in st\<lparr>storage := (storage st)\<lparr>dotd_streak := Some streakVal', dotd_last := Some today\<rparr>,
                  streak := streakVal'\<rparr>)
         else st\<lparr>streak := streakVal\<rparr>)"

text \<open>The effect returns at once while \<open>results\<close> is \<open>null\<close>.\<close>

definition streakEffect :: "Drug \<Rightarrow> int \<Rightarrow> state \<Rightarrow> state" where
  "streakEffect drug now st = (if results drug st = None then st else recordCompletion now st)"

subsection \<open>Completed screen\<close>

definition markReviewComplete :: "zone \<Rightarrow> int \<Rightarrow> state \<Rightarrow> state" where
  "markReviewComplete tz now st =
     (let target = next9amTs tz now
      in st\<lparr>storage := (storage st)\<lparr>dotd_next_at := Some target\<rparr>,
            nextAt := Some target, showCompleted := True\<rparr>)"

text \<open>\<open>currentLeft = nextAt ? Math.max(0, nextAt - Date.now()) : 0\<close> (\<open>null\<close> and \<open>0\<close> are falsy)
  and \<open>ready = left <= 0\<close>.\<close>

definition currentLeft :: "int \<Rightarrow> state \<Rightarrow> int" where
  "currentLeft now st =
     (case nextAt st of None \<Rightarrow> 0 | Some n \<Rightarrow> if n = 0 then 0 else max 0 (n - now))"

definition ready :: "int \<Rightarrow> state \<Rightarrow> bool" where
  "ready now st = (currentLeft now st \<le> 0)"

text \<open>The "Back to home" button.\<close>

definition backToHome :: "state \<Rightarrow> state" where
  "backToHome st = st\<lparr>showCompleted := False, showResults := False, idx := 0\<rparr>"

text \<open>The "Start next dose" button (disabled unless \<open>ready\<close>).\<close>

definition startNextDose :: "state \<Rightarrow> state" where
  "startNextDose st =
     st\<lparr>storage := (storage st)\<lparr>dotd_next_at := None\<rparr>,
        nextAt := None, showCompleted := False, idx := 0\<rparr>"

subsection \<open>Events\<close>

text \<open>
  Which of the three screens is rendered, and the events of each. An event that the
  rendered screen does not offer (a button that is absent or disabled) leaves the state as
  it is. Every handler belongs to a render, which has read \<open>curr.id\<close>: a state whose \<open>curr\<close> is
  \<open>undefined\<close> raises a \<open>TypeError\<close> instead. The streak effect runs after the render that
  follows \<open>goNext\<close>, the only handler that turns \<open>results\<close> from \<open>null\<close> to a value.
\<close>

datatype screen = Quiz | Results | Completed

definition screen_of :: "state \<Rightarrow> screen" where
  "screen_of st = (if showCompleted st then Completed else if showResults st then Results else Quiz)"

datatype event =
    Toggle string
  | ClearSelection
  | GoNext int
  | GoBack
  | Tick
  | SetTimerOn bool
  | SetSoundOn bool
  | TryAgain
  | MarkReviewComplete int
  | BackToHome
  | StartNextDose int

fun handle :: "zone \<Rightarrow> Drug \<Rightarrow> Anchor \<Rightarrow> event \<Rightarrow> state \<Rightarrow> state" where
  "handle tz drug c (Toggle i) st =
     (if screen_of st = Quiz \<and> i \<in> set (map opt_id (options c)) then toggle c i st else st)"
| "handle tz drug c ClearSelection st =
     (if screen_of st = Quiz then clearSelection c st else st)"
| "handle tz drug c (GoNext now) st =
     (if screen_of st = Quiz then streakEffect drug now (goNext (length (anchors drug)) st) else st)"
| "handle tz drug c GoBack st =
     (if screen_of st = Quiz \<and> idx st > 0 then goBack st else st)"
| "handle tz drug c Tick st = tick c st"
| "handle tz drug c (SetTimerOn b) st =
     (if screen_of st = Quiz then st\<lparr>timerOn := b\<rparr> else st)"
| "handle tz drug c (SetSoundOn b) st =
     (if screen_of st = Quiz then st\<lparr>soundOn := b\<rparr> else st)"
| "handle tz drug c TryAgain st =
     (if screen_of st = Results then tryAgain st else st)"
| "handle tz drug c (MarkReviewComplete now) st =
     (if screen_of st = Results then markReviewComplete tz now st else st)"
| "handle tz drug c BackToHome st =
     (if screen_of st = Completed then backToHome st else st)"
| "handle tz drug c (StartNextDose now) st =
     (if screen_of st = Completed \<and> ready now st then startNextDose st else st)"

definition step :: "zone \<Rightarrow> Drug \<Rightarrow> event \<Rightarrow> state \<Rightarrow> error + state" where
  "step tz drug ev st =
     (case curr drug st of None \<Rightarrow> Inl TypeError | Some c \<Rightarrow> Inr (handle tz drug c ev st))"

fun run :: "zone \<Rightarrow> Drug \<Rightarrow> event list \<Rightarrow> state \<Rightarrow> error + state" where
  "run tz drug [] st = Inr st"
| "run tz drug (ev # evs) st =
     (case step tz drug ev st of Inl e \<Rightarrow> Inl e | Inr st' \<Rightarrow> run tz drug evs st')"

subsection \<open>Timer invariant and sample states\<close>

text \<open>No stored remaining time is negative.\<close>

definition timers_nonneg :: "(AnchorId \<rightharpoonup> int) \<Rightarrow> bool" where
  "timers_nonneg d = (\<forall>a v. d a = Some v \<longrightarrow> 0 \<le> v)"

text \<open>A store with no key set, and the state on the Completed screen that the sample run of
  lemma \<open>run_completed\<close> below reaches from it.\<close>

definition emptyStorage :: localStorage where
  "emptyStorage = \<lparr>dotd_next_at = None, dotd_streak = None, dotd_last = None\<rparr>"

definition completedExample :: state where
  "completedExample =
     \<lparr>idx = 4, answers = (\<lambda>_. [])(Class := [''ace'']), showResults = True,
      showCompleted = True, timerOn = True, soundOn = True,
      secondsLeftBy = (initialTimes RAMIPRIL)(Class \<mapsto> 34), nextAt = Some 32400000,
      streak = 1,
      storage = \<lparr>dotd_next_at = Some 32400000, dotd_streak = Some 1, dotd_last = Some 0\<rparr>\<rparr>"

section \<open>Properties\<close>

subsection \<open>Local time\<close>

lemma MS_PER_DAY_pos: "0 < MS_PER_DAY"
  by (simp add: MS_PER_DAY_def)

lemma timeOfDay_range: "0 \<le> timeOfDay tz t \<and> timeOfDay tz t < MS_PER_DAY"
  using MS_PER_DAY_pos by (simp add: timeOfDay_def)

lemma localDay_split: "localTime tz t = localDay tz t * MS_PER_DAY + timeOfDay tz t"
  by (simp add: localDay_def timeOfDay_def)

lemma localAt_div:
  assumes "0 \<le> h" "h < 24"
  shows "localAt day h div MS_PER_DAY = day" and "localAt day h mod MS_PER_DAY = h * MS_PER_HOUR"
proof -
  have r: "0 \<le> h * MS_PER_HOUR" "h * MS_PER_HOUR < MS_PER_DAY"
    using assms by (simp_all add: MS_PER_HOUR_def MS_PER_DAY_def)
  have e: "localAt day h = h * MS_PER_HOUR + day * MS_PER_DAY"
    by (simp add: localAt_def)
  show "localAt day h div MS_PER_DAY = day"
    unfolding e using r MS_PER_DAY_pos by simp
  show "localAt day h mod MS_PER_DAY = h * MS_PER_HOUR"
    unfolding e using r by simp
qed

text \<open>On a regular local time the timestamp built from the fields reads the fields back.\<close>

lemma localDay_dateAt:
  assumes "regular tz (localAt day h)" "0 \<le> h" "h < 24"
  shows "localDay tz (dateAt tz day h) = day"
  using assms by (simp add: localDay_def dateAt_def regular_def localAt_div)

lemma timeOfDay_dateAt:
  assumes "regular tz (localAt day h)" "0 \<le> h" "h < 24"
  shows "timeOfDay tz (dateAt tz day h) = h * MS_PER_HOUR"
  using assms by (simp add: timeOfDay_def dateAt_def regular_def localAt_div)

lemma setDatePlus1_dateAt:
  assumes "regular tz (localAt day h)" "0 \<le> h" "h < 24"
  shows "setDatePlus1 tz (dateAt tz day h) = dateAt tz (day + 1) h"
  unfolding setDatePlus1_def localDay_dateAt [OF assms] timeOfDay_dateAt [OF assms]
  by (simp add: dateAt_def localAt_def)

lemma before9_iff:
  assumes "regular tz (localAt (localDay tz now) 9)"
  shows "now < today9 tz now \<longleftrightarrow> timeOfDay tz now < 9 * MS_PER_HOUR"
proof -
  have "today9 tz now \<le> now \<longleftrightarrow> localAt (localDay tz now) 9 \<le> localTime tz now"
    using assms by (simp add: regular_def today9_def dateAt_def)
  also have "\<dots> \<longleftrightarrow> 9 * MS_PER_HOUR \<le> timeOfDay tz now"
    using localDay_split [of tz now] by (simp add: localAt_def)
  finally show ?thesis by linarith
qed

text \<open>In a zone with one offset every local time is regular and the offset is steady.\<close>

lemma regular_fixedZone: "regular (fixedZone off) l"
  by (auto simp: regular_def fixedZone_def localTime_def utcOf_def)

lemma steady_fixedZone: "steady (fixedZone off) off lo hi"
  by (simp add: steady_def fixedZone_def)

subsection \<open>Unlock gate\<close>

text \<open>
  Claim C1. For every timestamp whose local time of day is strictly before 09:00:00.000,
  \<open>next9amTs\<close> returns 09:00:00.000 local time of the same calendar day; for every timestamp
  whose local time of day is at or after 09:00:00.000 (the boundary included), it returns
  09:00:00.000 local time of the next calendar day, at the offset of that day. In both cases
  the result reads 09:00 on the local clock and is strictly later than the timestamp. This
  holds in every time zone, with or without daylight-saving time, in which 09:00 of the day
  and of the next day are regular local times.
\<close>

theorem C1_next9amTs:
  assumes "regular tz (localAt (localDay tz now) 9)"
    and "regular tz (localAt (localDay tz now + 1) 9)"
  shows "(timeOfDay tz now < 9 * MS_PER_HOUR \<longrightarrow>
      next9amTs tz now = dateAt tz (localDay tz now) 9
      \<and> localDay tz (next9amTs tz now) = localDay tz now)
   \<and> (9 * MS_PER_HOUR \<le> timeOfDay tz now \<longrightarrow>
      next9amTs tz now = dateAt tz (localDay tz now + 1) 9
      \<and> localDay tz (next9amTs tz now) = localDay tz now + 1)
   \<and> timeOfDay tz (next9amTs tz now) = 9 * MS_PER_HOUR
   \<and> now < next9amTs tz now"
proof -
  let ?d = "localDay tz now"
  have le: "dateAt tz ?d 9 \<le> now \<longleftrightarrow> 9 * MS_PER_HOUR \<le> timeOfDay tz now"
    using before9_iff [OF assms(1)] unfolding today9_def by linarith
  have nxt: "setDatePlus1 tz (dateAt tz ?d 9) = dateAt tz (?d + 1) 9"
    using assms(1) by (rule setDatePlus1_dateAt) simp_all
  have d0: "localDay tz (dateAt tz ?d 9) = ?d"
    using assms(1) by (rule localDay_dateAt) simp_all
  have d1: "localDay tz (dateAt tz (?d + 1) 9) = ?d + 1"
    using assms(2) by (rule localDay_dateAt) simp_all
  have t0: "timeOfDay tz (dateAt tz ?d 9) = 9 * MS_PER_HOUR"
    using assms(1) by (rule timeOfDay_dateAt) simp_all
  have t1: "timeOfDay tz (dateAt tz (?d + 1) 9) = 9 * MS_PER_HOUR"
    using assms(2) by (rule timeOfDay_dateAt) simp_all
  have "timeOfDay tz now < MS_PER_DAY"
    using timeOfDay_range [of tz now] by simp
  then have "localTime tz now < localAt (?d + 1) 9"
    using localDay_split [of tz now]
    by (simp add: localAt_def MS_PER_HOUR_def MS_PER_DAY_def algebra_simps)
  then have "\<not> dateAt tz (?d + 1) 9 \<le> now"
    using assms(2) by (simp add: regular_def dateAt_def)
  then have fut: "now < next9amTs tz now"
    using nxt by (auto simp: next9amTs_def Let_def)
  have a: "timeOfDay tz now < 9 * MS_PER_HOUR \<longrightarrow>
      next9amTs tz now = dateAt tz ?d 9 \<and> localDay tz (next9amTs tz now) = ?d"
    using le by (simp add: next9amTs_def Let_def d0)
  have b: "9 * MS_PER_HOUR \<le> timeOfDay tz now \<longrightarrow>
      next9amTs tz now = dateAt tz (?d + 1) 9 \<and> localDay tz (next9amTs tz now) = ?d + 1"
    using le nxt by (simp add: next9amTs_def Let_def d1)
  have c: "timeOfDay tz (next9amTs tz now) = 9 * MS_PER_HOUR"
    using nxt by (simp add: next9amTs_def Let_def t0 t1)
  from a b c fut show ?thesis by blast
qed


lemma regular_london_oct25: "regular london2025 (localAt 20386 9)"
  by (auto simp: regular_def london2025_def localTime_def utcOf_def localAt_def
      MS_PER_DAY_def MS_PER_HOUR_def)

lemma regular_london_oct26: "regular london2025 (localAt 20387 9)"
  by (auto simp: regular_def london2025_def localTime_def utcOf_def localAt_def
      MS_PER_DAY_def MS_PER_HOUR_def)

lemma london_fields:
  "localDay london2025 1761375600000 = 20386" "timeOfDay london2025 1761375600000 = 8 * MS_PER_HOUR"
  "localDay london2025 1761379200000 = 20386" "timeOfDay london2025 1761379200000 = 9 * MS_PER_HOUR"
  "localDay london2025 1761382800000 = 20386" "timeOfDay london2025 1761382800000 = 10 * MS_PER_HOUR"
  by (simp_all add: localDay_def timeOfDay_def localTime_def london2025_def
      MS_PER_DAY_def MS_PER_HOUR_def)

lemma london_dateAt:
  "dateAt london2025 20386 9 = 1761379200000" "dateAt london2025 20387 9 = 1761469200000"
  by (simp_all add: dateAt_def utcOf_def localAt_def london2025_def MS_PER_DAY_def MS_PER_HOUR_def)

text \<open>London on 2025-10-25, the day before the clocks go back: 08:00 BST gives 09:00 BST of
  the same day; 09:00 BST and 10:00 BST give 09:00 GMT of 2025-10-26, which is 25 hours after
  09:00 BST of 2025-10-25.\<close>

theorem C1_next9amTs_witness:
  "regular london2025 (localAt (localDay london2025 1761375600000) 9)
   \<and> regular london2025 (localAt (localDay london2025 1761375600000 + 1) 9)
   \<and> 1761375600000 = localDateTime london2025 2025 10 25 8 0
   \<and> timeOfDay london2025 1761375600000 < 9 * MS_PER_HOUR
   \<and> next9amTs london2025 1761375600000 = 1761379200000
   \<and> 1761379200000 = localDateTime london2025 2025 10 25 9 0
   \<and> 9 * MS_PER_HOUR \<le> timeOfDay london2025 1761379200000
   \<and> next9amTs london2025 1761379200000 = 1761469200000
   \<and> 1761382800000 = localDateTime london2025 2025 10 25 10 0
   \<and> 9 * MS_PER_HOUR \<le> timeOfDay london2025 1761382800000
   \<and> next9amTs london2025 1761382800000 = 1761469200000
   \<and> 1761469200000 = localDateTime london2025 2025 10 26 9 0
   \<and> 1761469200000 - 1761379200000 = 25 * MS_PER_HOUR"
proof -
  have r0: "regular london2025 (localAt (localDay london2025 1761375600000) 9)"
    "regular london2025 (localAt (localDay london2025 1761379200000) 9)"
    "regular london2025 (localAt (localDay london2025 1761382800000) 9)"
    by (simp_all only: london_fields regular_london_oct25)
  have r1: "regular london2025 (localAt (localDay london2025 1761375600000 + 1) 9)"
    "regular london2025 (localAt (localDay london2025 1761379200000 + 1) 9)"
    "regular london2025 (localAt (localDay london2025 1761382800000 + 1) 9)"
    using regular_london_oct26 by (simp_all add: london_fields)
  have l: "1761375600000 = localDateTime london2025 2025 10 25 8 0"
    "1761379200000 = localDateTime london2025 2025 10 25 9 0"
    "1761382800000 = localDateTime london2025 2025 10 25 10 0"
    "1761469200000 = localDateTime london2025 2025 10 26 9 0"
    by (simp_all add: localDateTime_def localValue_def utcOf_def london2025_def
        days_from_civil_def MS_PER_DAY_def MS_PER_HOUR_def)
  have a: "timeOfDay london2025 1761375600000 < 9 * MS_PER_HOUR"
    "9 * MS_PER_HOUR \<le> timeOfDay london2025 1761379200000"
    "9 * MS_PER_HOUR \<le> timeOfDay london2025 1761382800000"
    by (simp_all add: london_fields MS_PER_HOUR_def)
  have n1: "next9amTs london2025 1761375600000 = 1761379200000"
    using C1_next9amTs [OF r0(1) r1(1)] a(1) by (simp add: london_fields london_dateAt)
  have n2: "next9amTs london2025 1761379200000 = 1761469200000"
    using C1_next9amTs [OF r0(2) r1(2)] a(2) by (simp add: london_fields london_dateAt)
  have n3: "next9amTs london2025 1761382800000 = 1761469200000"
    using C1_next9amTs [OF r0(3) r1(3)] a(3) by (simp add: london_fields london_dateAt)
  have h: "(1761469200000::int) - 1761379200000 = 25 * MS_PER_HOUR"
    by (simp add: MS_PER_HOUR_def)
  from r0(1) r1(1) l a n1 n2 n3 h show ?thesis by (intro conjI)
qed

subsection \<open>Day selector: the index\<close>

lemma js_rem_nonneg: "0 \<le> a \<Longrightarrow> 0 < b \<Longrightarrow> js_rem a b = a mod b"
  by (cases "a = 0") (simp_all add: js_rem_def)

lemma js_rem_neg: "a < 0 \<Longrightarrow> 0 < b \<Longrightarrow> js_rem a b = - ((- a) mod b)"
  by (simp add: js_rem_def)

text \<open>The double remainder of the source is the mathematical (floored) modulus.\<close>

lemma safeIdx_mod:
  assumes "0 < n"
  shows "safeIdx d n = d mod n"
proof (cases "0 \<le> d")
  case True
  then have "js_rem d n = d mod n" using assms by (rule js_rem_nonneg)
  moreover have "0 \<le> d mod n + n" using assms by (simp add: add_nonneg_nonneg)
  ultimately show ?thesis using assms by (simp add: safeIdx_def js_rem_nonneg)
next
  case False
  then have r: "js_rem d n = - ((- d) mod n)" using assms by (simp add: js_rem_neg)
  have "(- d) mod n < n" using assms by simp
  then have "0 \<le> - ((- d) mod n) + n" by simp
  then have "js_rem (- ((- d) mod n) + n) n = (- ((- d) mod n) + n) mod n"
    using assms by (rule js_rem_nonneg)
  also have "\<dots> = (- ((- d) mod n)) mod n" by simp
  also have "\<dots> = d mod n" by (simp add: mod_minus_eq)
  finally show ?thesis using assms r by (simp add: safeIdx_def)
qed

text \<open>
  Claim C4. For every integer number of days since the epoch (negative ones included) and
  every non-empty content list of length \<open>n\<close>, the index computed by the day selector equals
  \<open>((days mod n) + n) mod n\<close> and lies in \<open>[0, n)\<close>; the selector returns the item at that index.
  The source computes it with the truncating remainder \<open>%\<close> of JavaScript; \<open>mod\<close> below is the
  floored modulus.
\<close>

theorem C4_index_in_range:
  assumes "list \<noteq> []" and "n = int (length list)"
  shows "safeIdx d n = ((d mod n) + n) mod n \<and> 0 \<le> safeIdx d n \<and> safeIdx d n < n
         \<and> pickDrugForToday tz now list = Some (list ! nat (safeIdx (days tz now) n))"
proof -
  have n: "0 < n" using assms by simp
  have a: "safeIdx d n = ((d mod n) + n) mod n" using n by (simp add: safeIdx_mod)
  have b: "0 \<le> safeIdx d n \<and> safeIdx d n < n" using n by (simp add: safeIdx_mod)
  have "0 \<le> safeIdx (days tz now) n \<and> safeIdx (days tz now) n < n"
    using n by (simp add: safeIdx_mod)
  then have c: "pickDrugForToday tz now list = Some (list ! nat (safeIdx (days tz now) n))"
    using n assms(2) by (simp add: pickDrugForToday_def js_index_def Let_def)
  from a b c show ?thesis by simp
qed

text \<open>Seven days before the epoch, three items: \<open>-7 % 3\<close> is \<open>-1\<close> in JavaScript, the index
  is 2.\<close>

theorem C4_index_in_range_witness:
  "[''a'', ''b'', ''c''] \<noteq> [] \<and> safeIdx (- 7) 3 = 2 \<and> ((- 7 mod 3) + 3) mod 3 = (2::int)
    \<and> js_rem (- 7) 3 = - 1"
  using C4_index_in_range [of "[''a'', ''b'', ''c'']" 3 "- 7" utcZone 0]
  by (simp add: js_rem_def)

subsection \<open>Day selector: the day window\<close>



















subsection \<open>Day selector: empty content\<close>

text \<open>
  Claim C3, as the specification states it (with empty content the day selector fails with
  \<open>EmptyContentError\<close>), does not hold of the source: \<open>pickDrugForToday\<close> guards the index with
  \<open>len > 0\<close>, returns \<open>list[0]\<close>, which is \<open>undefined\<close>, and raises nothing; the failure that
  follows in the component is a \<open>TypeError\<close>.
\<close>

theorem C3_empty_content_counterexample:
  "pickDrugForToday utcZone 0 ([] :: Drug list) = None
   \<and> mount utcZone 0 [] \<lparr>dotd_next_at = None, dotd_streak = None, dotd_last = None\<rparr> \<noteq> Inl EmptyContentError"
  by (simp add: mount_def pickDrugForToday_def js_index_def)

text \<open>
  Claim C3, amended. With empty content \<open>pickDrugForToday\<close> does not fail: at every time it
  returns \<open>undefined\<close>, no content item. No session starts all the same: mounting the component
  raises a \<open>TypeError\<close> (the read of \<open>drug.anchors\<close>), not an \<open>EmptyContentError\<close>.
\<close>

theorem C3_empty_content:
  "pickDrugForToday tz now ([] :: Drug list) = None \<and> mount tz now [] ls = Inl TypeError"
  by (simp add: mount_def pickDrugForToday_def js_index_def)

subsection \<open>Scorer\<close>

lemma set_has_iff: "set_has s v \<longleftrightarrow> v \<in> set s"
  by (simp add: set_has_def)

lemma set_foldl_set_add: "set (foldl set_add acc xs) = set acc \<union> set xs"
  by (induction xs arbitrary: acc) (auto simp: set_add_def set_has_iff)

lemma distinct_foldl_set_add: "distinct acc \<Longrightarrow> distinct (foldl set_add acc xs)"
  by (induction xs arbitrary: acc) (auto simp: set_add_def set_has_iff)

lemma set_new_Set: "set (new_Set xs) = set xs"
  by (simp add: new_Set_def set_foldl_set_add)

lemma distinct_new_Set: "distinct (new_Set xs)"
  by (simp add: new_Set_def distinct_foldl_set_add)

lemma setsEqual_iff:
  assumes "distinct a" "distinct b"
  shows "setsEqual a b \<longleftrightarrow> set a = set b"
proof
  assume "setsEqual a b"
  then have len: "length a = length b" and sub: "set a \<subseteq> set b"
    by (auto simp: setsEqual_def list_all_iff set_has_iff split: if_splits)
  have "card (set a) = card (set b)"
    using len assms by (simp add: distinct_card)
  then show "set a = set b"
    using sub by (simp add: card_subset_eq)
next
  assume eq: "set a = set b"
  then have "length a = length b"
    using assms by (metis distinct_card)
  then show "setsEqual a b"
    using eq by (simp add: setsEqual_def list_all_iff set_has_iff)
qed

text \<open>
  Claim C5. For every anchor and every answer state, the scorer marks the anchor correct
  exactly when the selected option ids and the correct option ids are equal as sets (order
  and repetitions are irrelevant). \<open>missed\<close> holds the options of the anchor whose id is in
  \<open>correct - selected\<close>, and \<open>wrong\<close> those whose id is in \<open>selected - correct\<close>; when the correct
  ids (respectively the selected ids) are option ids of the anchor, as the data model has it,
  the ids of \<open>missed\<close> (respectively of \<open>wrong\<close>) are exactly that difference.
\<close>

theorem C5_scorer:
  "r_correct (scoreAnchor ans a) = (set (ans (anchor_id a)) = set (correct a))
   \<and> set (r_missed (scoreAnchor ans a)) =
       {p \<in> set (options a). opt_id p \<in> set (correct a) - set (ans (anchor_id a))}
   \<and> set (r_wrong (scoreAnchor ans a)) =
       {p \<in> set (options a). opt_id p \<in> set (ans (anchor_id a)) - set (correct a)}
   \<and> (set (correct a) \<subseteq> opt_id ` set (options a) \<longrightarrow>
       opt_id ` set (r_missed (scoreAnchor ans a)) = set (correct a) - set (ans (anchor_id a)))
   \<and> (set (ans (anchor_id a)) \<subseteq> opt_id ` set (options a) \<longrightarrow>
       opt_id ` set (r_wrong (scoreAnchor ans a)) = set (ans (anchor_id a)) - set (correct a))"
proof -
  have c: "r_correct (scoreAnchor ans a) = (set (ans (anchor_id a)) = set (correct a))"
    by (simp add: scoreAnchor_def Let_def setsEqual_iff distinct_new_Set set_new_Set)
  have m: "set (r_missed (scoreAnchor ans a)) =
       {p \<in> set (options a). opt_id p \<in> set (correct a) - set (ans (anchor_id a))}"
    by (auto simp: scoreAnchor_def Let_def set_has_iff set_new_Set)
  have w: "set (r_wrong (scoreAnchor ans a)) =
       {p \<in> set (options a). opt_id p \<in> set (ans (anchor_id a)) - set (correct a)}"
    by (auto simp: scoreAnchor_def Let_def set_has_iff set_new_Set)
  have mi: "set (correct a) \<subseteq> opt_id ` set (options a) \<longrightarrow>
       opt_id ` set (r_missed (scoreAnchor ans a)) = set (correct a) - set (ans (anchor_id a))"
    unfolding m by auto
  have wi: "set (ans (anchor_id a)) \<subseteq> opt_id ` set (options a) \<longrightarrow>
       opt_id ` set (r_wrong (scoreAnchor ans a)) = set (ans (anchor_id a)) - set (correct a)"
    unfolding w by auto
  from c m w mi wi show ?thesis by blast
qed

lemma RAMIPRIL_indications:
  "anchors RAMIPRIL ! 1 =
     \<lparr>anchor_id = Indications, anchor_title = ''Common indications'', anchor_type = Multi,
      options = [\<lparr>opt_id = ''htn'', opt_label = ''Hypertension''\<rparr>,
                 \<lparr>opt_id = ''hfrEF'', opt_label = ''Heart failure with reduced EF''\<rparr>,
                 \<lparr>opt_id = ''postmi'', opt_label = ''Post-MI / secondary prevention''\<rparr>,
                 \<lparr>opt_id = ''ckd'', opt_label = ''CKD with albuminuria''\<rparr>,
                 \<lparr>opt_id = ''angina'', opt_label = ''Stable angina''\<rparr>,
                 \<lparr>opt_id = ''migraine'', opt_label = ''Migraine prophylaxis''\<rparr>],
      correct = [''htn'', ''hfrEF'', ''postmi'', ''ckd'']\<rparr>"
  by (simp add: RAMIPRIL_def)

text \<open>The indications anchor of \<open>RAMIPRIL\<close>: the selection ckd, angina, htn misses hfrEF and
  postmi and has angina wrong; the four correct ids in another order are correct.\<close>

theorem C5_scorer_witness:
  "set (correct (anchors RAMIPRIL ! 1)) \<subseteq> opt_id ` set (options (anchors RAMIPRIL ! 1))
   \<and> set [''ckd'', ''angina'', ''htn''] \<subseteq> opt_id ` set (options (anchors RAMIPRIL ! 1))
   \<and> \<not> r_correct (scoreAnchor (\<lambda>_. [''ckd'', ''angina'', ''htn'']) (anchors RAMIPRIL ! 1))
   \<and> opt_id ` set (r_missed (scoreAnchor (\<lambda>_. [''ckd'', ''angina'', ''htn'']) (anchors RAMIPRIL ! 1)))
        = {''hfrEF'', ''postmi''}
   \<and> opt_id ` set (r_wrong (scoreAnchor (\<lambda>_. [''ckd'', ''angina'', ''htn'']) (anchors RAMIPRIL ! 1)))
        = {''angina''}
   \<and> r_correct (scoreAnchor (\<lambda>_. [''ckd'', ''postmi'', ''hfrEF'', ''htn'']) (anchors RAMIPRIL ! 1))"
proof -
  define ind where "ind = anchors RAMIPRIL ! 1"
  note ind_eq = RAMIPRIL_indications [folded ind_def]
  have a: "set (correct ind) \<subseteq> opt_id ` set (options ind)"
    and b: "set [''ckd'', ''angina'', ''htn''] \<subseteq> opt_id ` set (options ind)"
    by (simp_all add: ind_eq)
  have m: "set (correct ind) - set [''ckd'', ''angina'', ''htn''] = {''hfrEF'', ''postmi''}"
    by (auto simp: ind_eq)
  have w: "set [''ckd'', ''angina'', ''htn''] - set (correct ind) = {''angina''}"
    by (auto simp: ind_eq)
  have n: "set [''ckd'', ''angina'', ''htn''] \<noteq> set (correct ind)"
    using w by blast
  have y: "set [''ckd'', ''postmi'', ''hfrEF'', ''htn''] = set (correct ind)"
    by (auto simp: ind_eq)
  note t = C5_scorer [of "\<lambda>_. [''ckd'', ''angina'', ''htn'']" ind]
  note u = C5_scorer [of "\<lambda>_. [''ckd'', ''postmi'', ''hfrEF'', ''htn'']" ind]
  have c1: "\<not> r_correct (scoreAnchor (\<lambda>_. [''ckd'', ''angina'', ''htn'']) ind)"
    using t [THEN conjunct1] n by simp
  have c2: "opt_id ` set (r_missed (scoreAnchor (\<lambda>_. [''ckd'', ''angina'', ''htn'']) ind))
      = {''hfrEF'', ''postmi''}"
    using t [THEN conjunct2, THEN conjunct2, THEN conjunct2, THEN conjunct1, THEN mp, OF a] m
    by (simp only:)
  have c3: "opt_id ` set (r_wrong (scoreAnchor (\<lambda>_. [''ckd'', ''angina'', ''htn'']) ind))
      = {''angina''}"
    using t [THEN conjunct2, THEN conjunct2, THEN conjunct2, THEN conjunct2, THEN mp, OF b] w
    by (simp only:)
  have c4: "r_correct (scoreAnchor (\<lambda>_. [''ckd'', ''postmi'', ''hfrEF'', ''htn'']) ind)"
    using u [THEN conjunct1] y by simp
  from a b c1 c2 c3 c4 show ?thesis
    unfolding ind_def by (intro conjI)
qed

subsection \<open>Streak\<close>

lemma utcDate_yesterday: "utcDate (now - 86400000) = utcDate now - 1"
proof -
  have "(now - MS_PER_DAY + MS_PER_DAY) div MS_PER_DAY = (now - MS_PER_DAY) div MS_PER_DAY + 1"
    using MS_PER_DAY_pos by (simp only: div_add_self2)
  then have "(now - MS_PER_DAY) div MS_PER_DAY = now div MS_PER_DAY - 1"
    by simp
  moreover have "now - 86400000 = now - MS_PER_DAY"
    by (simp add: MS_PER_DAY_def)
  ultimately show ?thesis by (simp only: utcDate_def)
qed

lemma recordCompletion_today:
  assumes "dotd_last (storage st) = Some (utcDate now)"
  shows "recordCompletion now st = st\<lparr>streak := storedStreak (storage st)\<rparr>"
  using assms by (simp add: recordCompletion_def storedStreak_def)

lemma recordCompletion_yesterday:
  assumes "dotd_last (storage st) = Some (utcDate now - 1)"
  shows "recordCompletion now st =
     st\<lparr>storage := (storage st)\<lparr>dotd_streak := Some (storedStreak (storage st) + 1), dotd_last := Some (utcDate now)\<rparr>,
        streak := storedStreak (storage st) + 1\<rparr>"
  using assms by (simp add: recordCompletion_def storedStreak_def Let_def utcDate_yesterday)

lemma recordCompletion_gap:
  assumes "dotd_last (storage st) \<noteq> Some (utcDate now)" "dotd_last (storage st) \<noteq> Some (utcDate now - 1)"
  shows "recordCompletion now st =
     st\<lparr>storage := (storage st)\<lparr>dotd_streak := Some 1, dotd_last := Some (utcDate now)\<rparr>,
        streak := 1\<rparr>"
  using assms by (simp add: recordCompletion_def Let_def utcDate_yesterday)

lemma recordCompletion_last: "dotd_last (storage (recordCompletion now st)) = Some (utcDate now)"
  by (simp add: recordCompletion_def Let_def)

lemma recordCompletion_idem:
  assumes "utcDate now' = utcDate now"
  shows "recordCompletion now' (recordCompletion now st) = recordCompletion now st"
proof -
  let ?s = "recordCompletion now st"
  have l: "dotd_last (storage ?s) = Some (utcDate now')"
    using assms by (simp add: recordCompletion_last)
  have "storedStreak (storage ?s) = streak ?s"
    by (auto simp: recordCompletion_def storedStreak_def Let_def)
  then show ?thesis
    using recordCompletion_today [OF l] by simp
qed

text \<open>
  Claim C6. The streak effect is idempotent within a day and follows the streak rules: when
  the persisted last completion date is today, the streak shown is the stored one and the
  store is unchanged; when it is yesterday, the new streak is the stored one plus 1; in every
  other case (a gap of two days or more, or no date stored) the new streak is 1. In the two
  latter cases the new streak and today's date are stored. Running the effect again on the
  same (UTC) day changes nothing.
\<close>

theorem C6_streak:
  "(dotd_last (storage st) = Some (utcDate now) \<longrightarrow>
      streak (recordCompletion now st) = storedStreak (storage st)
      \<and> storage (recordCompletion now st) = storage st)
   \<and> (dotd_last (storage st) = Some (utcDate now - 1) \<longrightarrow>
      streak (recordCompletion now st) = storedStreak (storage st) + 1
      \<and> dotd_streak (storage (recordCompletion now st)) = Some (storedStreak (storage st) + 1)
      \<and> dotd_last (storage (recordCompletion now st)) = Some (utcDate now))
   \<and> (dotd_last (storage st) \<noteq> Some (utcDate now) \<and> dotd_last (storage st) \<noteq> Some (utcDate now - 1) \<longrightarrow>
      streak (recordCompletion now st) = 1
      \<and> dotd_streak (storage (recordCompletion now st)) = Some 1
      \<and> dotd_last (storage (recordCompletion now st)) = Some (utcDate now))
   \<and> (utcDate now' = utcDate now \<longrightarrow>
      recordCompletion now' (recordCompletion now st) = recordCompletion now st)"
  by (simp add: recordCompletion_today recordCompletion_yesterday recordCompletion_gap
      recordCompletion_idem)


text \<open>On 2025-09-03 (day 20334): a stored streak of 4 with last date 20333 gives 5, with last
  date 20334 the stored 5 stays, with last date 20332 or an empty store the streak is 1, and a
  second run an hour later still gives 5.\<close>

theorem C6_streak_witness:
  "dotd_last (storage (initState RAMIPRIL \<lparr>dotd_next_at = None, dotd_streak = Some 4, dotd_last = Some 20333\<rparr>))
      = Some (utcDate 1756886400000 - 1)
   \<and> streak (recordCompletion 1756886400000
        (initState RAMIPRIL \<lparr>dotd_next_at = None, dotd_streak = Some 4, dotd_last = Some 20333\<rparr>)) = 5
   \<and> dotd_last (storage (initState RAMIPRIL \<lparr>dotd_next_at = None, dotd_streak = Some 5, dotd_last = Some 20334\<rparr>))
      = Some (utcDate 1756886400000)
   \<and> streak (recordCompletion 1756886400000
        (initState RAMIPRIL \<lparr>dotd_next_at = None, dotd_streak = Some 5, dotd_last = Some 20334\<rparr>)) = 5
   \<and> streak (recordCompletion 1756886400000
        (initState RAMIPRIL \<lparr>dotd_next_at = None, dotd_streak = Some 4, dotd_last = Some 20332\<rparr>)) = 1
   \<and> streak (recordCompletion 1756886400000
        (initState RAMIPRIL emptyStorage)) = 1
   \<and> utcDate 1756890000000 = utcDate 1756886400000
   \<and> streak (recordCompletion 1756890000000 (recordCompletion 1756886400000
        (initState RAMIPRIL \<lparr>dotd_next_at = None, dotd_streak = Some 4, dotd_last = Some 20333\<rparr>))) = 5"
  using
    C6_streak [of "initState RAMIPRIL \<lparr>dotd_next_at = None, dotd_streak = Some 4, dotd_last = Some 20333\<rparr>"
      1756886400000 1756890000000]
    C6_streak [of "initState RAMIPRIL \<lparr>dotd_next_at = None, dotd_streak = Some 5, dotd_last = Some 20334\<rparr>"
      1756886400000 1756890000000]
    C6_streak [of "initState RAMIPRIL \<lparr>dotd_next_at = None, dotd_streak = Some 4, dotd_last = Some 20332\<rparr>"
      1756886400000 1756890000000]
    C6_streak [of "initState RAMIPRIL emptyStorage"
      1756886400000 1756890000000]
  by (simp add: initState_def emptyStorage_def utcDate_def MS_PER_DAY_def storedStreak_def)

subsection \<open>Navigation\<close>

lemma screen_Quiz_iff: "screen_of st = Quiz \<longleftrightarrow> \<not> showResults st \<and> \<not> showCompleted st"
  by (simp add: screen_of_def)

lemma screen_Results_iff: "screen_of st = Results \<longleftrightarrow> showResults st \<and> \<not> showCompleted st"
  by (simp add: screen_of_def)

lemma screen_Completed_iff: "screen_of st = Completed \<longleftrightarrow> showCompleted st"
  by (simp add: screen_of_def)

lemma goBack_goNext:
  assumes "0 < idx st" "idx st < n"
  shows "goNext n (goBack st) = st"
  using assms by (simp add: goNext_def goBack_def)

lemma curr_Some: "idx st < length (anchors drug) \<Longrightarrow> curr drug st = Some (anchors drug ! idx st)"
  by (simp add: curr_def js_index_def)

lemma run_back_next:
  assumes "screen_of st = Quiz" "0 < idx st" "idx st < length (anchors drug)"
  shows "run tz drug [GoBack, GoNext now] st = Inr st"
proof -
  have q: "\<not> showResults st" "\<not> showCompleted st"
    using assms(1) by (simp_all add: screen_Quiz_iff)
  have 1: "step tz drug GoBack st = Inr (goBack st)"
    using assms by (simp add: step_def curr_Some)
  have i: "idx (goBack st) < length (anchors drug)"
    using assms by (simp add: goBack_def)
  have s: "screen_of (goBack st) = Quiz"
    using assms by (simp add: goBack_def screen_Quiz_iff)
  have "results drug st = None"
    using q by (simp add: results_def)
  then have 2: "step tz drug (GoNext now) (goBack st) = Inr st"
    using i s assms by (simp add: step_def curr_Some goBack_goNext streakEffect_def)
  show ?thesis by (simp add: 1 2)
qed

text \<open>
  Claim C7. In a quiz state with index above 0 (and below the number of anchors, as in
  every state the component renders), \<open>goBack\<close> followed at once by \<open>goNext\<close> gives the state
  back exactly, also as events of the component; neither handler changes any anchor's
  answers or remaining seconds; \<open>goBack\<close> at index 0 changes nothing.
\<close>

theorem C7_retreat_advance:
  "(screen_of st = Quiz \<and> 0 < idx st \<and> idx st < length (anchors drug) \<longrightarrow>
      goNext (length (anchors drug)) (goBack st) = st
      \<and> idx (goBack st) = idx st - 1
      \<and> run tz drug [GoBack, GoNext now] st = Inr st)
   \<and> answers (goBack st) = answers st \<and> secondsLeftBy (goBack st) = secondsLeftBy st
   \<and> answers (goNext n st) = answers st \<and> secondsLeftBy (goNext n st) = secondsLeftBy st
   \<and> (idx st = 0 \<longrightarrow> goBack st = st \<and> handle tz drug c GoBack st = st)"
proof -
  have a: "screen_of st = Quiz \<and> 0 < idx st \<and> idx st < length (anchors drug) \<longrightarrow>
      goNext (length (anchors drug)) (goBack st) = st
      \<and> idx (goBack st) = idx st - 1
      \<and> run tz drug [GoBack, GoNext now] st = Inr st"
    using run_back_next [of st drug tz now] goBack_goNext [of st "length (anchors drug)"]
    by (simp add: goBack_def)
  have b: "answers (goBack st) = answers st \<and> secondsLeftBy (goBack st) = secondsLeftBy st"
    by (simp add: goBack_def)
  have c: "answers (goNext n st) = answers st \<and> secondsLeftBy (goNext n st) = secondsLeftBy st"
    by (simp add: goNext_def)
  have d: "idx st = 0 \<longrightarrow> goBack st = st \<and> handle tz drug c GoBack st = st"
    by (simp add: goBack_def)
  from a b c d show ?thesis by blast
qed


text \<open>\<open>RAMIPRIL\<close> at the third question, and at the first.\<close>

theorem C7_retreat_advance_witness:
  "screen_of ((initState RAMIPRIL emptyStorage)\<lparr>idx := 2\<rparr>) = Quiz
   \<and> 0 < idx ((initState RAMIPRIL emptyStorage)\<lparr>idx := 2\<rparr>)
   \<and> idx ((initState RAMIPRIL emptyStorage)\<lparr>idx := 2\<rparr>)
        < length (anchors RAMIPRIL)
   \<and> idx (goBack ((initState RAMIPRIL emptyStorage)\<lparr>idx := 2\<rparr>)) = 1
   \<and> run utcZone RAMIPRIL [GoBack, GoNext 0]
        ((initState RAMIPRIL emptyStorage)\<lparr>idx := 2\<rparr>)
      = Inr ((initState RAMIPRIL emptyStorage)\<lparr>idx := 2\<rparr>)
   \<and> idx (initState RAMIPRIL emptyStorage) = 0
   \<and> goBack (initState RAMIPRIL emptyStorage)
      = initState RAMIPRIL emptyStorage"
proof -
  have l: "length (anchors RAMIPRIL) = 5" by (simp add: RAMIPRIL_def)
  show ?thesis
    using
      C7_retreat_advance [of "(initState RAMIPRIL emptyStorage)\<lparr>idx := 2\<rparr>"
        RAMIPRIL utcZone 0 5 "anchors RAMIPRIL ! 2"]
      C7_retreat_advance [of "initState RAMIPRIL emptyStorage"
        RAMIPRIL utcZone 0 5 "anchors RAMIPRIL ! 0"]
    by (simp add: l screen_of_def initState_def emptyStorage_def)
qed

subsection \<open>The sample content\<close>

lemma initialTimes_RAMIPRIL: "initialTimes RAMIPRIL a = Some 35"
  by (cases a) (simp_all add: initialTimes_def RAMIPRIL_def)

lemma length_RAMIPRIL: "length (anchors RAMIPRIL) = 5"
  by (simp add: RAMIPRIL_def)

lemma anchor_ids_RAMIPRIL:
  "anchor_id (anchors RAMIPRIL ! 0) = Class" "anchor_id (anchors RAMIPRIL ! 1) = Indications"
  "anchor_id (anchors RAMIPRIL ! Suc 0) = Indications"
  "anchor_id (anchors RAMIPRIL ! 2) = Moa" "anchor_id (anchors RAMIPRIL ! 3) = Adrs"
  "anchor_id (anchors RAMIPRIL ! 4) = Interactions"
  by (simp_all add: RAMIPRIL_def)

lemmas run_simps = step_def curr_def js_index_def length_RAMIPRIL anchor_ids_RAMIPRIL
  tick_def secondsLeft_def goNext_def goBack_def screen_of_def streakEffect_def results_def
  recordCompletion_def tryAgain_def initState_def emptyStorage_def initialTimes_RAMIPRIL Let_def
  markReviewComplete_def backToHome_def startNextDose_def ready_def currentLeft_def

subsection \<open>Try again\<close>

text \<open>
  Claim C8, as the specification states it ("Try again" resets every anchor's remaining time
  to the initial 35 seconds), does not hold of the source: the handler sets \<open>showResults\<close>,
  \<open>idx\<close> and \<open>answers\<close> only. After one tick on the first question, five times \<open>goNext\<close> and
  "Try again", the quiz is back at index 0 with 34 seconds left on the first question.
\<close>

theorem C8_tryAgain_counterexample:
  "\<not> isl (run utcZone RAMIPRIL [Tick, GoNext 0, GoNext 0, GoNext 0, GoNext 0, GoNext 0, TryAgain]
       (initState RAMIPRIL emptyStorage))
   \<and> screen_of (projr (run utcZone RAMIPRIL [Tick, GoNext 0, GoNext 0, GoNext 0, GoNext 0, GoNext 0, TryAgain]
       (initState RAMIPRIL emptyStorage))) = Quiz
   \<and> idx (projr (run utcZone RAMIPRIL [Tick, GoNext 0, GoNext 0, GoNext 0, GoNext 0, GoNext 0, TryAgain]
       (initState RAMIPRIL emptyStorage))) = 0
   \<and> secondsLeftBy (projr (run utcZone RAMIPRIL [Tick, GoNext 0, GoNext 0, GoNext 0, GoNext 0, GoNext 0, TryAgain]
       (initState RAMIPRIL emptyStorage))) Class = Some 34
   \<and> initialTimes RAMIPRIL Class = Some 35"
  by (simp add: run_simps)


text \<open>
  Claim C8, amended. "Try again" returns from the Results screen to the quiz at index 0 with
  every anchor's answers empty; it leaves every anchor's remaining seconds as they are.
\<close>

theorem C8_tryAgain:
  "idx (tryAgain st) = 0 \<and> \<not> showResults (tryAgain st)
   \<and> (\<forall>a. answers (tryAgain st) a = [])
   \<and> secondsLeftBy (tryAgain st) = secondsLeftBy st
   \<and> (screen_of st = Results \<longrightarrow>
        handle tz drug c TryAgain st = tryAgain st \<and> screen_of (tryAgain st) = Quiz)"
  by (simp add: tryAgain_def screen_Results_iff screen_Quiz_iff)

text \<open>A Results state with 34 seconds left on the first question.\<close>

theorem C8_tryAgain_witness:
  "screen_of ((initState RAMIPRIL emptyStorage)
       \<lparr>idx := 4, showResults := True, secondsLeftBy := (initialTimes RAMIPRIL)(Class \<mapsto> 34)\<rparr>) = Results
   \<and> screen_of (handle utcZone RAMIPRIL (anchors RAMIPRIL ! 4) TryAgain
       ((initState RAMIPRIL emptyStorage)
       \<lparr>idx := 4, showResults := True, secondsLeftBy := (initialTimes RAMIPRIL)(Class \<mapsto> 34)\<rparr>)) = Quiz
   \<and> idx (handle utcZone RAMIPRIL (anchors RAMIPRIL ! 4) TryAgain
       ((initState RAMIPRIL emptyStorage)
       \<lparr>idx := 4, showResults := True, secondsLeftBy := (initialTimes RAMIPRIL)(Class \<mapsto> 34)\<rparr>)) = 0
   \<and> secondsLeftBy (handle utcZone RAMIPRIL (anchors RAMIPRIL ! 4) TryAgain
       ((initState RAMIPRIL emptyStorage)
       \<lparr>idx := 4, showResults := True, secondsLeftBy := (initialTimes RAMIPRIL)(Class \<mapsto> 34)\<rparr>)) Class = Some 34"
  using C8_tryAgain [of "(initState RAMIPRIL emptyStorage)
       \<lparr>idx := 4, showResults := True, secondsLeftBy := (initialTimes RAMIPRIL)(Class \<mapsto> 34)\<rparr>"
       utcZone RAMIPRIL "anchors RAMIPRIL ! 4"]
  by (simp add: screen_of_def initState_def emptyStorage_def)

subsection \<open>Timer\<close>

lemma timers_nonneg_foldl:
  "timers_nonneg d \<Longrightarrow> timers_nonneg (foldl (\<lambda>d a. d(anchor_id a \<mapsto> 35)) d as)"
proof (induction as arbitrary: d)
  case Nil
  then show ?case by simp
next
  case (Cons x xs)
  have "timers_nonneg (d(anchor_id x \<mapsto> 35))"
    using Cons.prems by (simp add: timers_nonneg_def)
  then have "timers_nonneg (foldl (\<lambda>d a. d(anchor_id a \<mapsto> 35)) (d(anchor_id x \<mapsto> 35)) xs)"
    by (rule Cons.IH)
  then show ?case by (simp only: foldl_Cons)
qed

lemma timers_nonneg_init: "timers_nonneg (secondsLeftBy (initState drug ls))"
proof -
  have "timers_nonneg Map.empty" by (simp add: timers_nonneg_def)
  then show ?thesis
    by (simp add: initState_def emptyStorage_def initialTimes_def timers_nonneg_foldl)
qed

lemma timers_nonneg_tick:
  "timers_nonneg (secondsLeftBy st) \<Longrightarrow> timers_nonneg (secondsLeftBy (tick c st))"
  by (simp add: tick_def timers_nonneg_def)

lemma secondsLeftBy_toggle: "secondsLeftBy (toggle c i st) = secondsLeftBy st"
  by (simp add: toggle_def Let_def)

lemma secondsLeftBy_recordCompletion: "secondsLeftBy (recordCompletion now st) = secondsLeftBy st"
  by (simp add: recordCompletion_def Let_def)

lemma secondsLeftBy_streakEffect: "secondsLeftBy (streakEffect drug now st) = secondsLeftBy st"
  by (simp add: streakEffect_def secondsLeftBy_recordCompletion)

lemma secondsLeftBy_goNext: "secondsLeftBy (goNext n st) = secondsLeftBy st"
  by (simp add: goNext_def)

lemma secondsLeftBy_goBack: "secondsLeftBy (goBack st) = secondsLeftBy st"
  by (simp add: goBack_def)

lemma secondsLeftBy_handle_other:
  "ev \<noteq> Tick \<Longrightarrow> secondsLeftBy (handle tz drug c ev st) = secondsLeftBy st"
  by (cases ev)
    (simp_all add: secondsLeftBy_toggle clearSelection_def secondsLeftBy_streakEffect
      secondsLeftBy_goNext secondsLeftBy_goBack tryAgain_def markReviewComplete_def Let_def
      backToHome_def startNextDose_def)

lemma timers_nonneg_handle:
  assumes "timers_nonneg (secondsLeftBy st)"
  shows "timers_nonneg (secondsLeftBy (handle tz drug c ev st))"
proof (cases "ev = Tick")
  case True
  then show ?thesis using assms by (simp add: timers_nonneg_tick)
next
  case False
  then show ?thesis using assms by (simp add: secondsLeftBy_handle_other)
qed

lemma timers_nonneg_run:
  "timers_nonneg (secondsLeftBy st) \<Longrightarrow> run tz drug evs st = Inr st' \<Longrightarrow>
     timers_nonneg (secondsLeftBy st')"
proof (induction evs arbitrary: st)
  case Nil
  then show ?case by simp
next
  case (Cons ev evs)
  from Cons.prems(2) obtain c where c: "curr drug st = Some c"
    and r: "run tz drug evs (handle tz drug c ev st) = Inr st'"
    by (auto simp: step_def split: option.splits)
  have "timers_nonneg (secondsLeftBy (handle tz drug c ev st))"
    using Cons.prems(1) by (rule timers_nonneg_handle)
  then show ?case using r by (rule Cons.IH)
qed

lemma secondsLeft_nonneg: "timers_nonneg (secondsLeftBy st) \<Longrightarrow> 0 \<le> secondsLeft c st"
  by (auto simp: secondsLeft_def timers_nonneg_def split: option.splits)

text \<open>
  Claim C9. In every state that a sequence of events reaches from the initial state, no
  anchor's stored remaining seconds are negative, and neither is the value the component
  reads for an anchor (35 when none is stored). In such a state the timer effect decrements
  the remaining seconds of the current anchor by 1, floored at 0, when the timer is on and
  the quiz is shown, and leaves them as they are otherwise; it changes no other anchor; and
  no event leads to a negative value.
\<close>

theorem C9_timer_nonneg:
  assumes "run tz drug evs (initState drug ls) = Inr st"
  shows "(\<forall>a v. secondsLeftBy st a = Some v \<longrightarrow> 0 \<le> v)
     \<and> 0 \<le> secondsLeft c st
     \<and> secondsLeft c (tick c st) =
         (if timerOn st \<and> \<not> showResults st \<and> \<not> showCompleted st
          then max 0 (secondsLeft c st - 1) else secondsLeft c st)
     \<and> (\<forall>a. a \<noteq> anchor_id c \<longrightarrow> secondsLeftBy (tick c st) a = secondsLeftBy st a)
     \<and> (\<forall>a v ev. secondsLeftBy (handle tz drug c ev st) a = Some v \<longrightarrow> 0 \<le> v)"
proof -
  have inv: "timers_nonneg (secondsLeftBy st)"
    using timers_nonneg_init assms by (rule timers_nonneg_run)
  then have a: "\<forall>a v. secondsLeftBy st a = Some v \<longrightarrow> 0 \<le> v"
    by (simp add: timers_nonneg_def)
  have b: "0 \<le> secondsLeft c st" using inv by (rule secondsLeft_nonneg)
  have t: "secondsLeft c (tick c st) =
         (if timerOn st \<and> \<not> showResults st \<and> \<not> showCompleted st
          then max 0 (secondsLeft c st - 1) else secondsLeft c st)"
    using b by (auto simp: tick_def secondsLeft_def split: option.splits)
  have o: "\<forall>a. a \<noteq> anchor_id c \<longrightarrow> secondsLeftBy (tick c st) a = secondsLeftBy st a"
    by (simp add: tick_def)
  have h: "\<forall>a v ev. secondsLeftBy (handle tz drug c ev st) a = Some v \<longrightarrow> 0 \<le> v"
    using timers_nonneg_handle [OF inv, of tz drug c] by (simp add: timers_nonneg_def)
  from a b t o h show ?thesis by blast
qed

text \<open>One tick on the first question, two on the second, and back: 34 and 33 seconds; a further
  tick on the first question gives 33.\<close>

theorem C9_timer_nonneg_witness:
  "run utcZone RAMIPRIL [Tick, GoNext 0, Tick, Tick, GoBack]
      (initState RAMIPRIL emptyStorage)
     = Inr ((initState RAMIPRIL emptyStorage)
        \<lparr>secondsLeftBy := (initialTimes RAMIPRIL)(Class \<mapsto> 34, Indications \<mapsto> 33)\<rparr>)
   \<and> 0 \<le> secondsLeft (anchors RAMIPRIL ! 0)
        ((initState RAMIPRIL emptyStorage)
        \<lparr>secondsLeftBy := (initialTimes RAMIPRIL)(Class \<mapsto> 34, Indications \<mapsto> 33)\<rparr>)
   \<and> secondsLeft (anchors RAMIPRIL ! 0) (tick (anchors RAMIPRIL ! 0)
        ((initState RAMIPRIL emptyStorage)
        \<lparr>secondsLeftBy := (initialTimes RAMIPRIL)(Class \<mapsto> 34, Indications \<mapsto> 33)\<rparr>)) = 33"
proof -
  have r: "run utcZone RAMIPRIL [Tick, GoNext 0, Tick, Tick, GoBack]
      (initState RAMIPRIL emptyStorage)
     = Inr ((initState RAMIPRIL emptyStorage)
        \<lparr>secondsLeftBy := (initialTimes RAMIPRIL)(Class \<mapsto> 34, Indications \<mapsto> 33)\<rparr>)"
    by (simp add: run_simps)
  show ?thesis
    using r C9_timer_nonneg [OF r, of "anchors RAMIPRIL ! 0"]
    by (simp add: secondsLeft_def anchor_ids_RAMIPRIL initState_def emptyStorage_def)
qed


subsection \<open>Leaving the Completed screen\<close>

lemma toggle_class:
  "toggle (anchors RAMIPRIL ! 0) i st = st\<lparr>answers := (answers st)(Class := [i])\<rparr>"
  by (simp add: toggle_def RAMIPRIL_def Let_def)

lemma ace_option: "''ace'' \<in> opt_id ` set (options (anchors RAMIPRIL ! 0))"
  by (simp add: RAMIPRIL_def)

lemma next9amTs_0: "next9amTs utcZone 0 = 32400000"
  by (simp add: next9amTs_def dateAt_def localAt_def utcOf_def localDay_def localTime_def
      utcZone_def fixedZone_def MS_PER_DAY_def MS_PER_HOUR_def)

lemma run_completed:
  "run utcZone RAMIPRIL [Toggle ''ace'', Tick, GoNext 0, GoNext 0, GoNext 0, GoNext 0, GoNext 0,
        MarkReviewComplete 0] (initState RAMIPRIL emptyStorage) = Inr completedExample"
  using ace_option
  by (simp add: run_simps toggle_class storedStreak_def utcDate_def next9amTs_0
      completedExample_def)

text \<open>
  Claim C10. "Back to home" and "Start next dose" (enabled when the gate is ready) set the
  question index to 0 and leave every anchor's answers and remaining seconds unchanged;
  "Start next dose" also clears \<open>nextAt\<close> and the stored \<open>dotd_next_at\<close>, and leaves \<open>showResults\<close>
  as it is. While the gate is not ready, "Start next dose" does nothing. So the state that
  follows holds the answers and the remaining times of the session before, not those of a
  fresh state.
\<close>

theorem C10_leave_completed:
  "idx (backToHome st) = 0
   \<and> answers (backToHome st) = answers st
   \<and> secondsLeftBy (backToHome st) = secondsLeftBy st
   \<and> storage (backToHome st) = storage st \<and> nextAt (backToHome st) = nextAt st
   \<and> idx (startNextDose st) = 0
   \<and> answers (startNextDose st) = answers st
   \<and> secondsLeftBy (startNextDose st) = secondsLeftBy st
   \<and> showResults (startNextDose st) = showResults st
   \<and> nextAt (startNextDose st) = None
   \<and> storage (startNextDose st) = (storage st)\<lparr>dotd_next_at := None\<rparr>
   \<and> (screen_of st = Completed \<longrightarrow>
        handle tz drug c BackToHome st = backToHome st \<and> screen_of (backToHome st) = Quiz)
   \<and> (screen_of st = Completed \<and> ready now st \<longrightarrow>
        handle tz drug c (StartNextDose now) st = startNextDose st
        \<and> \<not> showCompleted (startNextDose st))
   \<and> (screen_of st = Completed \<and> \<not> ready now st \<longrightarrow>
        handle tz drug c (StartNextDose now) st = st)"
  by (simp add: backToHome_def startNextDose_def screen_Completed_iff screen_Quiz_iff)

text \<open>After choosing "ace", one tick, finishing and marking the review complete at time 0
  (UTC), both buttons leave "ace" selected and 34 seconds on the first question, where a
  fresh state has no answer and 35 seconds.\<close>

theorem C10_leave_completed_witness:
  "screen_of completedExample = Completed
   \<and> run utcZone RAMIPRIL [Toggle ''ace'', Tick, GoNext 0, GoNext 0, GoNext 0, GoNext 0, GoNext 0,
        MarkReviewComplete 0] (initState RAMIPRIL emptyStorage) = Inr completedExample
   \<and> answers (handle utcZone RAMIPRIL (anchors RAMIPRIL ! 4) BackToHome completedExample) Class = [''ace'']
   \<and> secondsLeftBy (handle utcZone RAMIPRIL (anchors RAMIPRIL ! 4) BackToHome completedExample) Class = Some 34
   \<and> idx (handle utcZone RAMIPRIL (anchors RAMIPRIL ! 4) BackToHome completedExample) = 0
   \<and> screen_of (handle utcZone RAMIPRIL (anchors RAMIPRIL ! 4) BackToHome completedExample) = Quiz
   \<and> answers (initState RAMIPRIL emptyStorage) Class = []
   \<and> secondsLeftBy (initState RAMIPRIL emptyStorage) Class = Some 35
   \<and> ready 32400000 completedExample
   \<and> answers (handle utcZone RAMIPRIL (anchors RAMIPRIL ! 4) (StartNextDose 32400000) completedExample) Class
        = [''ace'']
   \<and> secondsLeftBy (handle utcZone RAMIPRIL (anchors RAMIPRIL ! 4) (StartNextDose 32400000) completedExample)
        Class = Some 34
   \<and> dotd_next_at (storage (handle utcZone RAMIPRIL (anchors RAMIPRIL ! 4) (StartNextDose 32400000)
        completedExample)) = None
   \<and> \<not> ready 0 completedExample
   \<and> handle utcZone RAMIPRIL (anchors RAMIPRIL ! 4) (StartNextDose 0) completedExample = completedExample"
proof -
  have s: "screen_of completedExample = Completed"
    by (simp add: screen_of_def completedExample_def)
  have r: "ready 32400000 completedExample" and n: "\<not> ready 0 completedExample"
    by (simp_all add: ready_def currentLeft_def completedExample_def)
  note t = C10_leave_completed [of completedExample utcZone RAMIPRIL "anchors RAMIPRIL ! 4"]
  have a: "answers completedExample Class = [''ace'']"
    and b: "secondsLeftBy completedExample Class = Some 34"
    by (simp_all add: completedExample_def)
  have i: "answers (initState RAMIPRIL emptyStorage) Class = []"
    "secondsLeftBy (initState RAMIPRIL emptyStorage) Class = Some 35"
    by (simp_all add: initState_def emptyStorage_def initialTimes_RAMIPRIL)
  show ?thesis
    using s r n a b i run_completed t [of 32400000] t [of 0]
    by (simp add: screen_Quiz_iff)
qed

end
